theory Spec2Isabelle
  imports Complex_Main
begin

section \<open>Data model of the MapSearch component\<close>

text \<open>
  The component \<^verbatim>\<open>MapSearch\<close> (src/src/components/MapSearch.tsx) keeps its session
  state in React state cells and one ref, and reacts to callbacks of the browser and of
  the map provider's library. JavaScript numbers are only stored and passed on by the
  component (no arithmetic is done on them), so they are modelled as real numbers.
\<close>

type_synonym number = real

text \<open>
  \<^verbatim>\<open>google.maps.LatLngLiteral\<close> and \<^verbatim>\<open>google.maps.LatLng\<close>: a pair of a latitude and a
  longitude. The component reads a \<^verbatim>\<open>LatLng\<close> through \<^verbatim>\<open>lat()\<close> and \<^verbatim>\<open>lng()\<close> only.
\<close>

record LatLng =
  lat :: number
  lng :: number

text \<open>
  The fields of \<^verbatim>\<open>google.maps.places.PlaceResult\<close> that the component reads. Every one
  of them is optional in the provider's declaration, hence \<open>option\<close>.
\<close>

record PlaceGeometry =
  location :: "LatLng option"

record PlaceResult =
  place_id :: "string option"
  name :: "string option"
  vicinity :: "string option"
  formatted_address :: "string option"
  rating :: "number option"
  user_ratings_total :: "number option"
  geometry :: "PlaceGeometry option"

text \<open>The optional chain \<^verbatim>\<open>place.geometry?.location\<close>.\<close>

definition geometry_location :: "PlaceResult \<Rightarrow> LatLng option" where
  "geometry_location place =
     (case geometry place of None \<Rightarrow> None | Some g \<Rightarrow> location g)"

text \<open>
  The map instance is an opaque reference. The search box instance referred to by
  \<^verbatim>\<open>searchBoxRef.current\<close> is an object of the provider; the component only calls its
  \<^verbatim>\<open>getPlaces()\<close>, which yields a list of places or \<^verbatim>\<open>undefined\<close>.
\<close>

type_synonym MapHandle = nat

record SearchBox =
  getPlaces :: "PlaceResult list option"

text \<open>\<^verbatim>\<open>google.maps.places.PlaceSearchRequest\<close> as built in \<^verbatim>\<open>handleSearch\<close>.\<close>

record PlaceSearchRequest =
  location_rq :: LatLng
  radius :: number
  keyword :: string

text \<open>
  \<^verbatim>\<open>google.maps.places.PlacesServiceStatus\<close> is an enumeration of strings in the
  provider's library; \<^verbatim>\<open>OK\<close> is the string \<^verbatim>\<open>"OK"\<close>.
\<close>

type_synonym PlacesServiceStatus = string

definition PlacesServiceStatus_OK :: PlacesServiceStatus where
  "PlacesServiceStatus_OK = ''OK''"

text \<open>
  What a handler does besides updating the state: calls on the map instance, the provider
  request, the browser's alert and console, and an exception that leaves the handler.
\<close>

datatype js_error = TypeError

datatype effect =
    PanTo MapHandle LatLng
  | SetCenter MapHandle LatLng
  | TriggerResize MapHandle
  | NearbySearch MapHandle PlaceSearchRequest
  | Alert string
  | ConsoleError "string list"
  | ConsoleWarn "string list"
  | Uncaught js_error

text \<open>
  The state cells \<^verbatim>\<open>currentPosition\<close>, \<^verbatim>\<open>map\<close>, \<^verbatim>\<open>searchQuery\<close>, \<^verbatim>\<open>searchResults\<close> and
  \<^verbatim>\<open>selectedPlace\<close>, the ref \<^verbatim>\<open>searchBoxRef\<close>, and the two values returned by
  \<^verbatim>\<open>useJsApiLoader\<close>.
\<close>

record state =
  currentPosition :: "LatLng option"
  map_st :: "MapHandle option"
  searchQuery :: string
  searchResults :: "PlaceResult list"
  selectedPlace :: "PlaceResult option"
  searchBoxRef :: "SearchBox option"
  isLoaded :: bool
  loadError :: "string option"

section \<open>String literals of the source\<close>

text \<open>
  The messages of the source are Japanese text; a \<open>string\<close> holds them as the bytes of
  their UTF-8 encoding.
\<close>

definition msg_geolocation_failed :: string where
  \<comment> \<open>the literal of \<^verbatim>\<open>console.warn\<close>, line 54\<close>
  "msg_geolocation_failed =
     [CHR 0xE7, CHR 0x8F, CHR 0xBE, CHR 0xE5, CHR 0x9C, CHR 0xA8, CHR 0xE5, CHR 0x9C,
      CHR 0xB0, CHR 0xE3, CHR 0x81, CHR 0xAE, CHR 0xE5, CHR 0x8F, CHR 0x96, CHR 0xE5,
      CHR 0xBE, CHR 0x97, CHR 0xE3, CHR 0x81, CHR 0xAB, CHR 0xE5, CHR 0xA4, CHR 0xB1,
      CHR 0xE6, CHR 0x95, CHR 0x97, CHR 0xE3, CHR 0x81, CHR 0x97, CHR 0xE3, CHR 0x81,
      CHR 0xBE, CHR 0xE3, CHR 0x81, CHR 0x97, CHR 0xE3, CHR 0x81, CHR 0x9F, CHR 0xE3,
      CHR 0x80, CHR 0x82]"

definition msg_search_error :: string where
  \<comment> \<open>the first argument of \<^verbatim>\<open>console.error\<close>, line 87\<close>
  "msg_search_error =
     [CHR 0xE6, CHR 0xA4, CHR 0x9C, CHR 0xE7, CHR 0xB4, CHR 0xA2, CHR 0xE3, CHR 0x82,
      CHR 0xA8, CHR 0xE3, CHR 0x83, CHR 0xA9, CHR 0xE3, CHR 0x83, CHR 0xBC, CHR 0x3A]"

definition msg_search_failed :: string where
  \<comment> \<open>the text of the template literal of \<^verbatim>\<open>alert\<close> before \<^verbatim>\<open>${status}\<close>, line 88\<close>
  "msg_search_failed =
     [CHR 0xE3, CHR 0x82, CHR 0xB9, CHR 0xE3, CHR 0x83, CHR 0x9D, CHR 0xE3, CHR 0x83,
      CHR 0x83, CHR 0xE3, CHR 0x83, CHR 0x88, CHR 0xE6, CHR 0xA4, CHR 0x9C, CHR 0xE7,
      CHR 0xB4, CHR 0xA2, CHR 0xE3, CHR 0x81, CHR 0xAB, CHR 0xE5, CHR 0xA4, CHR 0xB1,
      CHR 0xE6, CHR 0x95, CHR 0x97, CHR 0xE3, CHR 0x81, CHR 0x97, CHR 0xE3, CHR 0x81,
      CHR 0xBE, CHR 0xE3, CHR 0x81, CHR 0x97, CHR 0xE3, CHR 0x81, CHR 0x9F, CHR 0x3A,
      CHR 0x20]"

definition msg_no_geometry :: string where
  \<comment> \<open>the literal of \<^verbatim>\<open>console.error\<close>, line 132\<close>
  "msg_no_geometry =
     [CHR 0xE5, CHR 0xA0, CHR 0xB4, CHR 0xE6, CHR 0x89, CHR 0x80, CHR 0xE3, CHR 0x81,
      CHR 0xAE, CHR 0xE3, CHR 0x82, CHR 0xB8, CHR 0xE3, CHR 0x82, CHR 0xAA, CHR 0xE3,
      CHR 0x83, CHR 0xA1, CHR 0xE3, CHR 0x83, CHR 0x88, CHR 0xE3, CHR 0x83, CHR 0xAA,
      CHR 0xE6, CHR 0x83, CHR 0x85, CHR 0xE5, CHR 0xA0, CHR 0xB1, CHR 0xE3, CHR 0x81,
      CHR 0x8C, CHR 0xE8, CHR 0xA6, CHR 0x8B, CHR 0xE3, CHR 0x81, CHR 0xA4, CHR 0xE3,
      CHR 0x81, CHR 0x8B, CHR 0xE3, CHR 0x82, CHR 0x8A, CHR 0xE3, CHR 0x81, CHR 0xBE,
      CHR 0xE3, CHR 0x81, CHR 0x9B, CHR 0xE3, CHR 0x82, CHR 0x93, CHR 0xE3, CHR 0x80,
      CHR 0x82]"

section \<open>Location acquisition\<close>

text \<open>
  The effect that runs once on mount (lines 41 to 61). Its outcome is one of: the
  browser has no \<^verbatim>\<open>navigator.geolocation\<close>; the success callback fires with the
  reported latitude and longitude; the failure callback fires.
\<close>

datatype geolocation = Unsupported | PositionSuccess number number | PositionError

fun geolocationEffect :: "geolocation \<Rightarrow> state \<Rightarrow> state \<times> effect list" where
  "geolocationEffect (PositionSuccess latitude longitude) s =
     (s\<lparr>currentPosition := Some \<lparr>lat = latitude, lng = longitude\<rparr>\<rparr>, [])"
| "geolocationEffect PositionError s =
     (s\<lparr>currentPosition := Some \<lparr>lat = 35.681236, lng = 139.767125\<rparr>\<rparr>,
      [ConsoleWarn [msg_geolocation_failed]])"
| "geolocationEffect Unsupported s =
     (s\<lparr>currentPosition := Some \<lparr>lat = 35.681236, lng = 139.767125\<rparr>\<rparr>, [])"

section \<open>Keyword search\<close>

text \<open>
  \<^verbatim>\<open>handleSearch\<close> (lines 66 to 92) returns at once unless the map is mounted, the
  query is non-empty, the position is known and the library is loaded; otherwise it
  issues the provider's nearby search. It sets no state itself.
\<close>

definition handleSearch :: "state \<Rightarrow> state \<times> effect list" where
  "handleSearch s =
     (case map_st s of
        None \<Rightarrow> (s, [])
      | Some m \<Rightarrow>
          if searchQuery s = [] then (s, [])
          else (case currentPosition s of
                  None \<Rightarrow> (s, [])
                | Some pos \<Rightarrow>
                    if \<not> isLoaded s then (s, [])
                    else (s, [NearbySearch m
                                \<lparr>location_rq = pos, radius = 5000,
                                 keyword = searchQuery s\<rparr>])))"

text \<open>
  The callback given to \<^verbatim>\<open>nearbySearch\<close> (lines 79 to 91). It closes over the map
  instance \<open>m\<close> that \<^verbatim>\<open>handleSearch\<close> saw; \<open>results\<close> is an array or \<^verbatim>\<open>null\<close>. An array is
  truthy even when empty, and then \<^verbatim>\<open>results[0]\<close> is \<^verbatim>\<open>undefined\<close>, so that reading
  its \<^verbatim>\<open>geometry\<close> throws a TypeError after the state update has been issued.
\<close>

definition nearbySearchCallback ::
  "MapHandle \<Rightarrow> PlaceResult list option \<Rightarrow> PlacesServiceStatus \<Rightarrow> state
     \<Rightarrow> state \<times> effect list" where
  "nearbySearchCallback m results status s =
     (if status = PlacesServiceStatus_OK \<and> results \<noteq> None then
        (s\<lparr>searchResults := the results\<rparr>,
         (case the results of
            [] \<Rightarrow> [Uncaught TypeError]
          | r0 # _ \<Rightarrow>
              (case geometry_location r0 of
                 Some loc \<Rightarrow> [PanTo m loc]
               | None \<Rightarrow> [])))
      else
        (s\<lparr>searchResults := []\<rparr>,
         [ConsoleError [msg_search_error, status],
          Alert (msg_search_failed @ status)]))"

section \<open>Autocomplete pick\<close>

text \<open>\<^verbatim>\<open>onPlacesChanged\<close> (lines 107 to 134).\<close>

definition onPlacesChanged :: "state \<Rightarrow> state \<times> effect list" where
  "onPlacesChanged s =
     (case searchBoxRef s of
        None \<Rightarrow> (s, [])
      | Some box \<Rightarrow>
          (case getPlaces box of
             None \<Rightarrow> (s, [])
           | Some [] \<Rightarrow> (s, [])
           | Some (firstPlace # _) \<Rightarrow>
               (case geometry_location firstPlace of
                  Some loc \<Rightarrow>
                    (let newCenter = \<lparr>lat = lat loc, lng = lng loc\<rparr> in
                       (s\<lparr>currentPosition := Some newCenter,
                          searchResults := [firstPlace],
                          selectedPlace := Some firstPlace\<rparr>,
                        (case map_st s of
                           Some m \<Rightarrow> [PanTo m newCenter]
                         | None \<Rightarrow> [])))
                | None \<Rightarrow> (s, [ConsoleError [msg_no_geometry]]))))"

section \<open>Map mount, search box mount and clicks\<close>

text \<open>
  \<^verbatim>\<open>onLoad\<close> and \<^verbatim>\<open>onUnmount\<close> of the map (lines 137 to 154); \<open>google_maps\<close> is the
  truth value of \<^verbatim>\<open>window.google?.maps\<close>.
\<close>

definition onLoad :: "bool \<Rightarrow> MapHandle \<Rightarrow> state \<Rightarrow> state \<times> effect list" where
  "onLoad google_maps m s =
     (s\<lparr>map_st := Some m\<rparr>,
      (if google_maps then [TriggerResize m] else []) @
      (case currentPosition s of Some pos \<Rightarrow> [SetCenter m pos] | None \<Rightarrow> []))"

definition onUnmount :: "state \<Rightarrow> state \<times> effect list" where
  "onUnmount s = (s\<lparr>map_st := None\<rparr>, [])"

text \<open>\<^verbatim>\<open>onLoad\<close> of the search box (line 168).\<close>

definition searchBoxOnLoad :: "SearchBox \<Rightarrow> state \<Rightarrow> state \<times> effect list" where
  "searchBoxOnLoad ref s = (s\<lparr>searchBoxRef := Some ref\<rparr>, [])"

text \<open>\<^verbatim>\<open>onClick\<close> of the marker of a place (line 214).\<close>

definition markerOnClick :: "PlaceResult \<Rightarrow> state \<Rightarrow> state \<times> effect list" where
  "markerOnClick place s = (s\<lparr>selectedPlace := Some place\<rparr>, [])"

text \<open>\<^verbatim>\<open>onClick\<close> of the list row of a place (lines 267 to 273).\<close>

definition rowOnClick :: "PlaceResult \<Rightarrow> state \<Rightarrow> state \<times> effect list" where
  "rowOnClick place s =
     (s\<lparr>selectedPlace := Some place\<rparr>,
      (case geometry_location place of
         Some loc \<Rightarrow> (case map_st s of Some m \<Rightarrow> [PanTo m loc] | None \<Rightarrow> [])
       | None \<Rightarrow> []))"

text \<open>\<^verbatim>\<open>onCloseClick\<close> of the info window (line 226).\<close>

definition onCloseClick :: "state \<Rightarrow> state \<times> effect list" where
  "onCloseClick s = (s\<lparr>selectedPlace := None\<rparr>, [])"

section \<open>Rendering\<close>

text \<open>
  The view is a function of the state (lines 159 to 291). Only what the view shows and
  which place a click handler selects is kept; styles and fixed captions are left out.

  \<^verbatim>\<open>{place.rating && (...)}\<close>: nothing is shown for a missing rating, the rating
  line for a rating other than zero, and the number itself for the falsy rating zero.
\<close>

datatype rating_view = RatingAbsent | RatingFalsy number | RatingLine number "number option"

definition renderRating :: "PlaceResult \<Rightarrow> rating_view" where
  "renderRating place =
     (case rating place of
        None \<Rightarrow> RatingAbsent
      | Some r \<Rightarrow> if r = 0 then RatingFalsy r else RatingLine r (user_ratings_total place))"

text \<open>
  \<^verbatim>\<open>place.vicinity || place.formatted_address\<close>: the left operand unless it is
  \<^verbatim>\<open>undefined\<close> or the empty string.
\<close>

definition renderAddress :: "PlaceResult \<Rightarrow> string option" where
  "renderAddress place =
     (case vicinity place of
        None \<Rightarrow> formatted_address place
      | Some [] \<Rightarrow> formatted_address place
      | Some (c # cs) \<Rightarrow> Some (c # cs))"

text \<open>A value inside a template literal: \<^verbatim>\<open>undefined\<close> is printed as that word.\<close>

definition interpolate :: "string option \<Rightarrow> string" where
  "interpolate v = (case v of None \<Rightarrow> ''undefined'' | Some t \<Rightarrow> t)"

definition placeHref :: "PlaceResult \<Rightarrow> string" where
  "placeHref place =
     ''https://www.google.com/maps/search/?api=1&query='' @ interpolate (name place) @
     ''&query_place_id='' @ interpolate (place_id place)"

record InfoWindowView =
  iw_position :: LatLng
  iw_name :: "string option"
  iw_address :: "string option"
  iw_rating :: rating_view
  iw_href :: string

record MarkerView =
  mk_key :: "string option"
  mk_position :: LatLng
  mk_title :: "string option"
  mk_onClick :: PlaceResult

record RowView =
  row_key :: "string option"
  row_highlighted :: bool
  row_name :: "string option"
  row_address :: "string option"
  row_rating :: rating_view
  row_onClick :: PlaceResult

record MapView =
  mv_center :: LatLng
  mv_position_marker :: LatLng
  mv_markers :: "MarkerView list"
  mv_infoWindow :: "InfoWindowView option"

datatype view =
    LoadErrorView
  | LoadingView
  | MainView "MapView option" nat "RowView list"

text \<open>The info window (lines 221 to 247).\<close>

definition renderInfoWindow :: "state \<Rightarrow> InfoWindowView option" where
  "renderInfoWindow s =
     (case selectedPlace s of
        None \<Rightarrow> None
      | Some sp \<Rightarrow>
          (case geometry_location sp of
             None \<Rightarrow> None
           | Some loc \<Rightarrow>
               Some \<lparr>iw_position = loc, iw_name = name sp,
                     iw_address = renderAddress sp, iw_rating = renderRating sp,
                     iw_href = placeHref sp\<rparr>))"

text \<open>One marker for each result that has a location (lines 208 to 217).\<close>

definition renderMarkers :: "state \<Rightarrow> MarkerView list" where
  "renderMarkers s =
     List.map_filter
       (\<lambda>place. case geometry_location place of
                  None \<Rightarrow> None
                | Some loc \<Rightarrow>
                    Some \<lparr>mk_key = place_id place, mk_position = loc,
                          mk_title = name place, mk_onClick = place\<rparr>)
       (searchResults s)"

text \<open>
  One row for each result (lines 257 to 283); the row is highlighted when
  \<^verbatim>\<open>selectedPlace?.place_id === place.place_id\<close>.
\<close>

definition renderRows :: "state \<Rightarrow> RowView list" where
  "renderRows s =
     map (\<lambda>place.
            \<lparr>row_key = place_id place,
             row_highlighted =
               ((case selectedPlace s of None \<Rightarrow> None | Some sp \<Rightarrow> place_id sp)
                  = place_id place),
             row_name = name place, row_address = renderAddress place,
             row_rating = renderRating place, row_onClick = place\<rparr>)
         (searchResults s)"

definition render :: "state \<Rightarrow> view" where
  "render s =
     (if loadError s \<noteq> None then LoadErrorView
      else if \<not> isLoaded s then LoadingView
      else MainView
             (case currentPosition s of
                None \<Rightarrow> None
              | Some pos \<Rightarrow>
                  Some \<lparr>mv_center = pos, mv_position_marker = pos,
                        mv_markers = renderMarkers s,
                        mv_infoWindow = renderInfoWindow s\<rparr>)
             (length (searchResults s))
             (renderRows s))"

text \<open>The overlay that a view shows, if any: only the main view with a map has one.\<close>

fun overlayOf :: "view \<Rightarrow> InfoWindowView option" where
  "overlayOf (MainView (Some mv) n rows) = mv_infoWindow mv"
| "overlayOf (MainView None n rows) = None"
| "overlayOf LoadErrorView = None"
| "overlayOf LoadingView = None"

section \<open>The operations of the component\<close>

text \<open>
  Every callback through which the component changes its state, as one step function.
\<close>

datatype event =
    Geolocation geolocation
  | HandleSearch
  | NearbySearchResponse MapHandle "PlaceResult list option" PlacesServiceStatus
  | PlacesChanged
  | MapLoad bool MapHandle
  | MapUnmount
  | SearchBoxLoad SearchBox
  | MarkerClick PlaceResult
  | RowClick PlaceResult
  | CloseClick

fun step :: "event \<Rightarrow> state \<Rightarrow> state \<times> effect list" where
  "step (Geolocation g) s = geolocationEffect g s"
| "step HandleSearch s = handleSearch s"
| "step (NearbySearchResponse m results status) s = nearbySearchCallback m results status s"
| "step PlacesChanged s = onPlacesChanged s"
| "step (MapLoad google_maps m) s = onLoad google_maps m s"
| "step MapUnmount s = onUnmount s"
| "step (SearchBoxLoad ref) s = searchBoxOnLoad ref s"
| "step (MarkerClick place) s = markerOnClick place s"
| "step (RowClick place) s = rowOnClick place s"
| "step CloseClick s = onCloseClick s"

text \<open>The calls of \<^verbatim>\<open>panTo\<close> and the provider requests among the effects of a handler.\<close>

fun pans :: "effect list \<Rightarrow> (MapHandle \<times> LatLng) list" where
  "pans [] = []"
| "pans (PanTo m loc # es) = (m, loc) # pans es"
| "pans (e # es) = pans es"

fun providerCalls :: "effect list \<Rightarrow> PlaceSearchRequest list" where
  "providerCalls [] = []"
| "providerCalls (NearbySearch m rq # es) = rq # providerCalls es"
| "providerCalls (e # es) = providerCalls es"

fun alerts :: "effect list \<Rightarrow> string list" where
  "alerts [] = []"
| "alerts (Alert msg # es) = msg # alerts es"
| "alerts (e # es) = alerts es"

text \<open>
  The invariant the data model asks of the selection: it is none, or a member of the
  current result list.
\<close>

definition selectionInResults :: "state \<Rightarrow> bool" where
  "selectionInResults s =
     (case selectedPlace s of None \<Rightarrow> True | Some sp \<Rightarrow> sp \<in> set (searchResults s))"

section \<open>Concrete states\<close>

definition tokyoStation :: LatLng where
  "tokyoStation = \<lparr>lat = 35.681236, lng = 139.767125\<rparr>"

definition cafeA :: PlaceResult where
  "cafeA =
     \<lparr>place_id = Some ''p1'', name = Some ''Cafe A'', vicinity = Some ''Marunouchi 1'',
      formatted_address = None, rating = Some 4.5, user_ratings_total = Some 12,
      geometry = Some \<lparr>location = Some \<lparr>lat = 35.6813, lng = 139.7672\<rparr>\<rparr>\<rparr>"

definition cafeB :: PlaceResult where
  "cafeB =
     \<lparr>place_id = Some ''p2'', name = Some ''Cafe B'', vicinity = None,
      formatted_address = Some ''Yaesu 2, Chuo'', rating = None,
      user_ratings_total = None,
      geometry = Some \<lparr>location = Some \<lparr>lat = 35.68, lng = 139.77\<rparr>\<rparr>\<rparr>"

definition placeNoGeometry :: PlaceResult where
  "placeNoGeometry =
     \<lparr>place_id = Some ''p3'', name = Some ''Kiosk'', vicinity = Some ''Platform 4'',
      formatted_address = None, rating = None, user_ratings_total = None,
      geometry = None\<rparr>"

definition initialState :: state where
  \<comment> \<open>the initial values of the state cells (lines 22 to 28, 97, 102)\<close>
  "initialState =
     \<lparr>currentPosition = None, map_st = None, searchQuery = [], searchResults = [],
      selectedPlace = None, searchBoxRef = None, isLoaded = False, loadError = None\<rparr>"

definition readyState :: state where
  \<comment> \<open>library loaded, position known, map mounted, a query typed\<close>
  "readyState =
     initialState\<lparr>currentPosition := Some tokyoStation, map_st := Some 1,
                   searchQuery := ''coffee'', isLoaded := True\<rparr>"

definition pickState :: state where
  \<comment> \<open>the search box holds one confirmed candidate\<close>
  "pickState = readyState\<lparr>searchBoxRef := Some \<lparr>getPlaces = Some [cafeB]\<rparr>\<rparr>"

definition pickNoGeometryState :: state where
  "pickNoGeometryState =
     readyState\<lparr>searchBoxRef := Some \<lparr>getPlaces = Some [placeNoGeometry, cafeA]\<rparr>\<rparr>"

definition cafeASelectedState :: state where
  \<comment> \<open>a search has returned one place and the user has selected it\<close>
  "cafeASelectedState = readyState\<lparr>searchResults := [cafeA], selectedPlace := Some cafeA\<rparr>"

definition kioskSelectedState :: state where
  \<comment> \<open>a search has returned a place without geometry and the user has clicked its row\<close>
  "kioskSelectedState =
     readyState\<lparr>searchResults := [placeNoGeometry], selectedPlace := Some placeNoGeometry\<rparr>"

definition standZeroRating :: PlaceResult where
  "standZeroRating =
     \<lparr>place_id = Some ''p4'', name = Some ''Stand'', vicinity = Some ''Gate 2'',
      formatted_address = None, rating = Some 0, user_ratings_total = Some 0,
      geometry = Some \<lparr>location = Some \<lparr>lat = 35.68, lng = 139.76\<rparr>\<rparr>\<rparr>"

definition standSelectedState :: state where
  \<comment> \<open>a search has returned a place whose rating is zero and the user has selected it\<close>
  "standSelectedState =
     readyState\<lparr>searchResults := [standZeroRating], selectedPlace := Some standZeroRating\<rparr>"

section \<open>Auxiliary facts\<close>

lemma geometry_location_cafeA:
  "geometry_location cafeA = Some \<lparr>lat = 35.6813, lng = 139.7672\<rparr>"
  by (simp add: geometry_location_def cafeA_def)

lemma geometry_location_cafeB:
  "geometry_location cafeB = Some \<lparr>lat = 35.68, lng = 139.77\<rparr>"
  by (simp add: geometry_location_def cafeB_def)

lemma geometry_location_placeNoGeometry: "geometry_location placeNoGeometry = None"
  by (simp add: geometry_location_def placeNoGeometry_def)

lemma cafeA_neq_cafeB: "cafeA \<noteq> cafeB"
  by (simp add: cafeA_def cafeB_def)

lemma onPlacesChanged_pick:
  "searchBoxRef s = Some box \<Longrightarrow> getPlaces box = Some (p # rest) \<Longrightarrow>
   geometry_location p = Some loc \<Longrightarrow>
   onPlacesChanged s =
     (s\<lparr>currentPosition := Some loc, searchResults := [p], selectedPlace := Some p\<rparr>,
      (case map_st s of Some m \<Rightarrow> [PanTo m loc] | None \<Rightarrow> []))"
  by (simp add: onPlacesChanged_def Let_def split: option.splits)

lemma onPlacesChanged_no_geometry:
  "searchBoxRef s = Some box \<Longrightarrow> getPlaces box = Some (p # rest) \<Longrightarrow>
   geometry_location p = None \<Longrightarrow>
   onPlacesChanged s = (s, [ConsoleError [msg_no_geometry]])"
  by (simp add: onPlacesChanged_def)

lemma onPlacesChanged_no_candidate:
  "searchBoxRef s = None \<or>
   (\<exists>box. searchBoxRef s = Some box \<and> (getPlaces box = None \<or> getPlaces box = Some []))
   \<Longrightarrow> onPlacesChanged s = (s, [])"
  by (auto simp: onPlacesChanged_def)

lemma onPlacesChanged_cases:
  "fst (onPlacesChanged s) = s \<or>
   (\<exists>box p rest loc.
      searchBoxRef s = Some box \<and> getPlaces box = Some (p # rest) \<and>
      geometry_location p = Some loc \<and>
      fst (onPlacesChanged s) =
        s\<lparr>currentPosition := Some loc, searchResults := [p], selectedPlace := Some p\<rparr>)"
proof (cases "searchBoxRef s")
  case None
  then show ?thesis by (simp add: onPlacesChanged_no_candidate)
next
  case (Some box)
  show ?thesis
  proof (cases "getPlaces box")
    case None
    with Some show ?thesis by (simp add: onPlacesChanged_no_candidate)
  next
    case places: (Some ps)
    show ?thesis
    proof (cases ps)
      case Nil
      with Some places show ?thesis by (simp add: onPlacesChanged_no_candidate)
    next
      case (Cons p rest)
      show ?thesis
      proof (cases "geometry_location p")
        case None
        with Some places Cons show ?thesis by (simp add: onPlacesChanged_no_geometry)
      next
        case loc: (Some loc)
        with Some places Cons have
          "fst (onPlacesChanged s) =
             s\<lparr>currentPosition := Some loc, searchResults := [p], selectedPlace := Some p\<rparr>"
          by (simp add: onPlacesChanged_pick)
        with Some places Cons loc show ?thesis by blast
      qed
    qed
  qed
qed

lemma selectionInResults_frame:
  "selectedPlace s' = selectedPlace s \<Longrightarrow> searchResults s' = searchResults s \<Longrightarrow>
     selectionInResults s \<Longrightarrow> selectionInResults s'"
  by (simp add: selectionInResults_def split: option.splits)

lemma onPlacesChanged_selection:
  assumes "selectionInResults s"
  shows "selectionInResults (fst (onPlacesChanged s))"
proof -
  from onPlacesChanged_cases [of s] show ?thesis
  proof (elim disjE exE conjE)
    assume "fst (onPlacesChanged s) = s"
    with assms show ?thesis by simp
  next
    fix box p rest loc
    assume picked: "fst (onPlacesChanged s) =
      s\<lparr>currentPosition := Some loc, searchResults := [p], selectedPlace := Some p\<rparr>"
    show ?thesis unfolding picked by (simp add: selectionInResults_def)
  qed
qed

lemma handleSearch_state: "fst (handleSearch s) = s"
  by (simp add: handleSearch_def split: option.splits)

lemma nearbySearchCallback_state:
  "fst (nearbySearchCallback m results status s) =
     s\<lparr>searchResults :=
          (if status = PlacesServiceStatus_OK \<and> results \<noteq> None then the results else [])\<rparr>"
  by (cases results) (simp_all add: nearbySearchCallback_def)


section \<open>Keyword search: successful response\<close>

text \<open>
  Claim C1, as stated, fails: a response with status OK whose entry 0 has no geometry
  replaces the result list, and the map is not panned (the handler has no effect at all
  besides the state update).
\<close>

theorem nearbySearch_ok_without_geometry_no_pan:
  "geometry_location placeNoGeometry = None \<and>
   nearbySearchCallback 1 (Some [placeNoGeometry]) PlacesServiceStatus_OK readyState =
     (readyState\<lparr>searchResults := [placeNoGeometry]\<rparr>, [])"
  by (simp add: nearbySearchCallback_def geometry_location_placeNoGeometry)

text \<open>
  Claim C1, amended: for every nearby-search callback with status OK and a result list
  of N entries, the result list of the state becomes exactly those N entries in the
  order of the response (nothing else of the state changes). If N is at least 1 and
  entry 0 has a geometry location, the map is panned once, to that location; if entry 0
  has no geometry location, the map is not panned; if N is 0, the result list becomes
  empty and the map is not panned.
\<close>

theorem nearbySearch_ok:
  "fst (nearbySearchCallback m (Some rs) PlacesServiceStatus_OK s) = s\<lparr>searchResults := rs\<rparr> \<and>
   pans (snd (nearbySearchCallback m (Some rs) PlacesServiceStatus_OK s)) =
     (case rs of
        [] \<Rightarrow> []
      | r0 # rest \<Rightarrow> (case geometry_location r0 of Some loc \<Rightarrow> [(m, loc)] | None \<Rightarrow> []))"
  by (simp add: nearbySearchCallback_def split: list.splits option.splits)

text \<open>The amended claim C1 at a response of two places, the first with geometry.\<close>

theorem nearbySearch_ok_witness:
  "fst (nearbySearchCallback 1 (Some [cafeA, cafeB]) PlacesServiceStatus_OK readyState) =
     readyState\<lparr>searchResults := [cafeA, cafeB]\<rparr> \<and>
   pans (snd (nearbySearchCallback 1 (Some [cafeA, cafeB]) PlacesServiceStatus_OK readyState)) =
     [(1, \<lparr>lat = 35.6813, lng = 139.7672\<rparr>)]"
  using nearbySearch_ok [of 1 "[cafeA, cafeB]" readyState]
  by (simp add: geometry_location_cafeA)

section \<open>Selection and result list\<close>

text \<open>
  Claim C2, as stated, fails: when a place of the result list is selected and a search
  response replaces the result list by other places, the selection stays as it was and
  is no member of the new result list.
\<close>

theorem search_keeps_stale_selection:
  "selectionInResults cafeASelectedState \<and>
   \<not> selectionInResults
       (fst (nearbySearchCallback 1 (Some [cafeB]) PlacesServiceStatus_OK cafeASelectedState))"
  by (simp add: selectionInResults_def nearbySearchCallback_state cafeASelectedState_def
      cafeA_neq_cafeB)

text \<open>
  Claim C2, amended: closing the overlay sets the selection to none; \<^verbatim>\<open>handleSearch\<close>
  and the callback of the nearby search leave the selection as it is (a search does not
  clear it); and every other operation of the component, a click being on a marker or a
  row of a place of the current result list, keeps the selection none or a member of the
  current result list if it was so before.
\<close>

theorem selection_invariant:
  "selectedPlace (fst (onCloseClick s)) = None \<and>
   selectedPlace (fst (handleSearch s)) = selectedPlace s \<and>
   selectedPlace (fst (nearbySearchCallback m results status s)) = selectedPlace s \<and>
   (selectionInResults s \<and>
    (\<forall>m' results' status'. ev \<noteq> NearbySearchResponse m' results' status') \<and>
    (\<forall>place. ev = MarkerClick place \<or> ev = RowClick place \<longrightarrow> place \<in> set (searchResults s))
    \<longrightarrow> selectionInResults (fst (step ev s)))"
proof -
  have close: "selectedPlace (fst (onCloseClick s)) = None"
    by (simp add: onCloseClick_def)
  have search: "selectedPlace (fst (handleSearch s)) = selectedPlace s"
    by (simp add: handleSearch_state)
  have response: "selectedPlace (fst (nearbySearchCallback m results status s)) = selectedPlace s"
    by (simp add: nearbySearchCallback_state)
  have inv: "selectionInResults (fst (step ev s))"
    if valid: "selectionInResults s"
      and other: "\<forall>m' results' status'. ev \<noteq> NearbySearchResponse m' results' status'"
      and shown: "\<forall>place. ev = MarkerClick place \<or> ev = RowClick place
                    \<longrightarrow> place \<in> set (searchResults s)"
  proof (cases ev)
    case (Geolocation g)
    then show ?thesis
      by (cases g) (simp_all add: selectionInResults_frame [OF _ _ valid])
  next
    case HandleSearch
    with valid show ?thesis by (simp add: handleSearch_state)
  next
    case (NearbySearchResponse m' results' status')
    with other show ?thesis by simp
  next
    case PlacesChanged
    with valid show ?thesis by (simp add: onPlacesChanged_selection)
  next
    case (MapLoad g m')
    then show ?thesis by (simp add: selectionInResults_frame [OF _ _ valid] onLoad_def)
  next
    case MapUnmount
    then show ?thesis by (simp add: selectionInResults_frame [OF _ _ valid] onUnmount_def)
  next
    case (SearchBoxLoad ref)
    then show ?thesis by (simp add: selectionInResults_frame [OF _ _ valid] searchBoxOnLoad_def)
  next
    case (MarkerClick place)
    with shown show ?thesis by (simp add: selectionInResults_def markerOnClick_def)
  next
    case (RowClick place)
    with shown show ?thesis by (simp add: selectionInResults_def rowOnClick_def)
  next
    case CloseClick
    then show ?thesis by (simp add: selectionInResults_def onCloseClick_def)
  qed
  from close search response inv show ?thesis by blast
qed

text \<open>The amended claim C2 at a click on the row of the second of two results.\<close>

theorem selection_invariant_witness:
  "selectionInResults (readyState\<lparr>searchResults := [cafeA, cafeB]\<rparr>) \<and>
   cafeB \<in> set (searchResults (readyState\<lparr>searchResults := [cafeA, cafeB]\<rparr>)) \<and>
   selectionInResults
     (fst (step (RowClick cafeB) (readyState\<lparr>searchResults := [cafeA, cafeB]\<rparr>)))"
  using selection_invariant
    [of "readyState\<lparr>searchResults := [cafeA, cafeB]\<rparr>" 0 None "[]" "RowClick cafeB"]
  by (simp add: selectionInResults_def readyState_def initialState_def)

section \<open>Clicks on a marker and on a list row\<close>

text \<open>
  Claim C3 asks that a click on the row of a place and a click on its marker do the
  same: select the place and pan the map to it. The comment above the row's handler
  (line 266) says so too. The code differs: with one result that has a location, so
  that it has both a marker and a row, the handler of the marker selects the place and
  does nothing else, while the handler of the row selects it and pans the map.
\<close>

theorem marker_click_does_not_pan:
  "map mk_onClick (renderMarkers (readyState\<lparr>searchResults := [cafeA]\<rparr>)) = [cafeA] \<and>
   map row_onClick (renderRows (readyState\<lparr>searchResults := [cafeA]\<rparr>)) = [cafeA] \<and>
   markerOnClick cafeA (readyState\<lparr>searchResults := [cafeA]\<rparr>) =
     (readyState\<lparr>searchResults := [cafeA], selectedPlace := Some cafeA\<rparr>, []) \<and>
   rowOnClick cafeA (readyState\<lparr>searchResults := [cafeA]\<rparr>) =
     (readyState\<lparr>searchResults := [cafeA], selectedPlace := Some cafeA\<rparr>,
      [PanTo 1 \<lparr>lat = 35.6813, lng = 139.7672\<rparr>])"
  by (simp add: markerOnClick_def rowOnClick_def geometry_location_cafeA renderMarkers_def
      renderRows_def List.map_filter_def readyState_def initialState_def)

section \<open>Autocomplete pick\<close>

text \<open>
  Claim C4: when \<^verbatim>\<open>onPlacesChanged\<close> runs and the first candidate of the search box
  has a geometry location, the current position becomes that location, the result list
  becomes the list of that one candidate and the selection becomes that candidate (and
  the map, if mounted, is panned there). When the first candidate has no geometry
  location, or there is no candidate (no search box, no list, or an empty list), the
  state does not change.
\<close>

theorem autocomplete_pick:
  "(searchBoxRef s = Some box \<and> getPlaces box = Some (p # rest) \<and>
    geometry_location p = Some loc \<longrightarrow>
      onPlacesChanged s =
        (s\<lparr>currentPosition := Some loc, searchResults := [p], selectedPlace := Some p\<rparr>,
         (case map_st s of Some m \<Rightarrow> [PanTo m loc] | None \<Rightarrow> []))) \<and>
   (searchBoxRef s = Some box \<and> getPlaces box = Some (p # rest) \<and>
    geometry_location p = None \<longrightarrow>
      fst (onPlacesChanged s) = s) \<and>
   (searchBoxRef s = None \<or>
    (searchBoxRef s = Some box \<and> (getPlaces box = None \<or> getPlaces box = Some [])) \<longrightarrow>
      fst (onPlacesChanged s) = s)"
proof (intro conjI impI)
  assume "searchBoxRef s = Some box \<and> getPlaces box = Some (p # rest) \<and>
    geometry_location p = Some loc"
  then show "onPlacesChanged s =
        (s\<lparr>currentPosition := Some loc, searchResults := [p], selectedPlace := Some p\<rparr>,
         (case map_st s of Some m \<Rightarrow> [PanTo m loc] | None \<Rightarrow> []))"
    by (simp add: onPlacesChanged_pick)
next
  assume "searchBoxRef s = Some box \<and> getPlaces box = Some (p # rest) \<and>
    geometry_location p = None"
  then show "fst (onPlacesChanged s) = s"
    by (simp add: onPlacesChanged_no_geometry)
next
  assume "searchBoxRef s = None \<or>
    (searchBoxRef s = Some box \<and> (getPlaces box = None \<or> getPlaces box = Some []))"
  then have "onPlacesChanged s = (s, [])"
    by (intro onPlacesChanged_no_candidate) blast
  then show "fst (onPlacesChanged s) = s" by simp
qed

text \<open>Claim C4 at a pick with geometry, a pick without geometry, and no search box.\<close>

theorem autocomplete_pick_witness:
  "(searchBoxRef pickState = Some \<lparr>getPlaces = Some [cafeB]\<rparr> \<and>
    geometry_location cafeB = Some \<lparr>lat = 35.68, lng = 139.77\<rparr> \<and>
    onPlacesChanged pickState =
      (pickState\<lparr>currentPosition := Some \<lparr>lat = 35.68, lng = 139.77\<rparr>,
                  searchResults := [cafeB], selectedPlace := Some cafeB\<rparr>,
       [PanTo 1 \<lparr>lat = 35.68, lng = 139.77\<rparr>])) \<and>
   (searchBoxRef pickNoGeometryState = Some \<lparr>getPlaces = Some [placeNoGeometry, cafeA]\<rparr> \<and>
    geometry_location placeNoGeometry = None \<and>
    fst (onPlacesChanged pickNoGeometryState) = pickNoGeometryState) \<and>
   (searchBoxRef readyState = None \<and> fst (onPlacesChanged readyState) = readyState)"
  using autocomplete_pick
          [of pickState "\<lparr>getPlaces = Some [cafeB]\<rparr>" cafeB "[]" "\<lparr>lat = 35.68, lng = 139.77\<rparr>"]
        autocomplete_pick
          [of pickNoGeometryState "\<lparr>getPlaces = Some [placeNoGeometry, cafeA]\<rparr>"
              placeNoGeometry "[cafeA]"]
        autocomplete_pick [of readyState]
  by (simp add: geometry_location_cafeB geometry_location_placeNoGeometry pickState_def
      pickNoGeometryState_def readyState_def initialState_def)

section \<open>Keyword search: failed response and guard\<close>

text \<open>
  Claim C5: when the callback of the nearby search reports a status other than OK, the
  result list becomes empty whatever it held, one alert is raised whose text ends with
  that status, and no provider request is issued (no retry).
\<close>

theorem nearbySearch_failed:
  "status \<noteq> PlacesServiceStatus_OK \<Longrightarrow>
     nearbySearchCallback m results status s =
       (s\<lparr>searchResults := []\<rparr>,
        [ConsoleError [msg_search_error, status], Alert (msg_search_failed @ status)]) \<and>
     alerts (snd (nearbySearchCallback m results status s)) = [msg_search_failed @ status] \<and>
     providerCalls (snd (nearbySearchCallback m results status s)) = []"
  by (simp add: nearbySearchCallback_def)

text \<open>Claim C5 at the status \<^verbatim>\<open>ZERO_RESULTS\<close> with a non-empty result list before.\<close>

theorem nearbySearch_failed_witness:
  "''ZERO_RESULTS'' \<noteq> PlacesServiceStatus_OK \<and>
   searchResults (fst (nearbySearchCallback 1 None ''ZERO_RESULTS'' cafeASelectedState)) = [] \<and>
   alerts (snd (nearbySearchCallback 1 None ''ZERO_RESULTS'' cafeASelectedState)) =
     [msg_search_failed @ ''ZERO_RESULTS''] \<and>
   providerCalls (snd (nearbySearchCallback 1 None ''ZERO_RESULTS'' cafeASelectedState)) = []"
proof -
  have ne: "''ZERO_RESULTS'' \<noteq> PlacesServiceStatus_OK"
    by (simp add: PlacesServiceStatus_OK_def)
  from nearbySearch_failed [OF ne, of 1 None cafeASelectedState] ne show ?thesis
    by simp
qed

text \<open>
  Claim C6: when the query is empty, or the current position is absent, or the map is
  not mounted, or the library is not loaded, \<^verbatim>\<open>handleSearch\<close> issues no provider
  request and leaves the whole state unchanged.
\<close>

theorem handleSearch_guard:
  "map_st s = None \<or> searchQuery s = [] \<or> currentPosition s = None \<or> \<not> isLoaded s \<Longrightarrow>
     handleSearch s = (s, []) \<and> providerCalls (snd (handleSearch s)) = []"
  by (auto simp: handleSearch_def split: option.splits)

text \<open>Claim C6 at a state that is ready but for an empty query.\<close>

theorem handleSearch_guard_witness:
  "searchQuery (readyState\<lparr>searchQuery := []\<rparr>) = [] \<and>
   handleSearch (readyState\<lparr>searchQuery := []\<rparr>) = (readyState\<lparr>searchQuery := []\<rparr>, [])"
proof -
  have empty: "searchQuery (readyState\<lparr>searchQuery := []\<rparr>) = []" by simp
  then have "map_st (readyState\<lparr>searchQuery := []\<rparr>) = None \<or>
      searchQuery (readyState\<lparr>searchQuery := []\<rparr>) = [] \<or>
      currentPosition (readyState\<lparr>searchQuery := []\<rparr>) = None \<or>
      \<not> isLoaded (readyState\<lparr>searchQuery := []\<rparr>)"
    by blast
  from handleSearch_guard [OF this] empty show ?thesis by blast
qed

section \<open>Location acquisition\<close>

text \<open>
  Claim C7: after every outcome of the location acquisition the current position is
  set: to the reported latitude and longitude on success, and to the fixed default when
  the failure callback fires or the browser has no geolocation; it is never unset.
\<close>

theorem geolocation_sets_position:
  "currentPosition (fst (geolocationEffect g s)) =
     Some (case g of
             PositionSuccess latitude longitude \<Rightarrow> \<lparr>lat = latitude, lng = longitude\<rparr>
           | PositionError \<Rightarrow> \<lparr>lat = 35.681236, lng = 139.767125\<rparr>
           | Unsupported \<Rightarrow> \<lparr>lat = 35.681236, lng = 139.767125\<rparr>) \<and>
   currentPosition (fst (geolocationEffect g s)) \<noteq> None"
  by (cases g) simp_all

section \<open>Overlay\<close>

text \<open>
  Claim C8, as stated, fails in two ways. A selected place without a geometry location
  (selected by a click on its row) has no overlay, though the map is rendered. And a
  selected place whose rating is present and zero has an overlay without the rating
  line: the number alone is shown, and the rating count is not.
\<close>

theorem selected_without_geometry_no_overlay:
  "selectedPlace kioskSelectedState = Some placeNoGeometry \<and>
   render kioskSelectedState =
     MainView
       (Some \<lparr>mv_center = tokyoStation, mv_position_marker = tokyoStation,
              mv_markers = [], mv_infoWindow = None\<rparr>)
       1
       [\<lparr>row_key = Some ''p3'', row_highlighted = True, row_name = Some ''Kiosk'',
         row_address = Some ''Platform 4'', row_rating = RatingAbsent,
         row_onClick = placeNoGeometry\<rparr>] \<and>
   selectedPlace standSelectedState = Some standZeroRating \<and>
   rating standZeroRating = Some 0 \<and>
   user_ratings_total standZeroRating = Some 0 \<and>
   overlayOf (render standSelectedState) =
     Some \<lparr>iw_position = \<lparr>lat = 35.68, lng = 139.76\<rparr>, iw_name = Some ''Stand'',
           iw_address = Some ''Gate 2'', iw_rating = RatingFalsy 0,
           iw_href =
             ''https://www.google.com/maps/search/?api=1&query=Stand&query_place_id=p4''\<rparr>"
proof -
  have kiosk: "selectedPlace kioskSelectedState = Some placeNoGeometry"
    by (simp add: kioskSelectedState_def)
  have kiosk_view: "render kioskSelectedState =
     MainView
       (Some \<lparr>mv_center = tokyoStation, mv_position_marker = tokyoStation,
              mv_markers = [], mv_infoWindow = None\<rparr>)
       1
       [\<lparr>row_key = Some ''p3'', row_highlighted = True, row_name = Some ''Kiosk'',
         row_address = Some ''Platform 4'', row_rating = RatingAbsent,
         row_onClick = placeNoGeometry\<rparr>]"
    by (simp add: render_def renderInfoWindow_def renderMarkers_def renderRows_def
        renderRating_def renderAddress_def List.map_filter_def
        geometry_location_placeNoGeometry kioskSelectedState_def readyState_def
        initialState_def)
      (simp add: placeNoGeometry_def)
  have stand: "selectedPlace standSelectedState = Some standZeroRating"
    by (simp add: standSelectedState_def)
  have zero: "rating standZeroRating = Some 0"
    and count: "user_ratings_total standZeroRating = Some 0"
    by (simp_all add: standZeroRating_def)
  have stand_location:
    "geometry_location standZeroRating = Some \<lparr>lat = 35.68, lng = 139.76\<rparr>"
    by (simp add: geometry_location_def standZeroRating_def)
  have stand_window: "renderInfoWindow standSelectedState =
     Some \<lparr>iw_position = \<lparr>lat = 35.68, lng = 139.76\<rparr>, iw_name = Some ''Stand'',
           iw_address = Some ''Gate 2'', iw_rating = RatingFalsy 0,
           iw_href =
             ''https://www.google.com/maps/search/?api=1&query=Stand&query_place_id=p4''\<rparr>"
    by (simp add: renderInfoWindow_def stand stand_location)
      (simp add: standZeroRating_def renderAddress_def renderRating_def placeHref_def
        interpolate_def)
  have stand_view: "overlayOf (render standSelectedState) = renderInfoWindow standSelectedState"
    by (simp add: render_def standSelectedState_def readyState_def initialState_def)
  from kiosk kiosk_view stand zero count stand_window stand_view show ?thesis
    by simp
qed

text \<open>
  Claim C8, amended: whenever the map is rendered (the library is loaded without error
  and the current position is known) and the selected place has a geometry location, an
  overlay is rendered at that location. It shows the name of the place; as address the
  vicinity text when that is present and not empty, and the formatted address
  otherwise; the rating line with the rating and the rating count whenever a rating is
  present and not zero, and no rating when none is present; and a link to the
  provider's page built from the name and the id of the place. A selected place without
  a geometry location has no overlay, whatever else the state holds.
\<close>

theorem overlay_of_selection:
  "(loadError s = None \<and> isLoaded s \<and> currentPosition s = Some pos \<and>
    selectedPlace s = Some sp \<and> geometry_location sp = Some loc \<longrightarrow>
      (\<exists>mv iw.
         render s = MainView (Some mv) (length (searchResults s)) (renderRows s) \<and>
         mv_infoWindow mv = Some iw \<and>
         overlayOf (render s) = Some iw \<and>
         iw_position iw = loc \<and>
         iw_name iw = name sp \<and>
         (\<forall>v. vicinity sp = Some v \<and> v \<noteq> [] \<longrightarrow> iw_address iw = Some v) \<and>
         (vicinity sp = None \<or> vicinity sp = Some [] \<longrightarrow>
            iw_address iw = formatted_address sp) \<and>
         (\<forall>r. rating sp = Some r \<and> r \<noteq> 0 \<longrightarrow>
            iw_rating iw = RatingLine r (user_ratings_total sp)) \<and>
         (rating sp = None \<longrightarrow> iw_rating iw = RatingAbsent) \<and>
         iw_href iw =
           ''https://www.google.com/maps/search/?api=1&query='' @ interpolate (name sp) @
           ''&query_place_id='' @ interpolate (place_id sp))) \<and>
   (selectedPlace s = Some sp \<and> geometry_location sp = None \<longrightarrow>
      overlayOf (render s) = None)"
proof (intro conjI impI)
  assume shown: "loadError s = None \<and> isLoaded s \<and> currentPosition s = Some pos \<and>
    selectedPlace s = Some sp \<and> geometry_location sp = Some loc"
  let ?iw = "\<lparr>iw_position = loc, iw_name = name sp, iw_address = renderAddress sp,
              iw_rating = renderRating sp, iw_href = placeHref sp\<rparr>"
  let ?mv = "\<lparr>mv_center = pos, mv_position_marker = pos, mv_markers = renderMarkers s,
              mv_infoWindow = Some ?iw\<rparr>"
  from shown have window: "renderInfoWindow s = Some ?iw"
    by (simp add: renderInfoWindow_def)
  with shown have
    view: "render s = MainView (Some ?mv) (length (searchResults s)) (renderRows s)"
    by (simp add: render_def)
  have address1: "\<forall>v. vicinity sp = Some v \<and> v \<noteq> [] \<longrightarrow> renderAddress sp = Some v"
    by (auto simp: renderAddress_def split: list.splits)
  have address2: "vicinity sp = None \<or> vicinity sp = Some [] \<longrightarrow>
      renderAddress sp = formatted_address sp"
    by (auto simp: renderAddress_def)
  have rating1: "\<forall>r. rating sp = Some r \<and> r \<noteq> 0 \<longrightarrow>
      renderRating sp = RatingLine r (user_ratings_total sp)"
    by (simp add: renderRating_def)
  have rating2: "rating sp = None \<longrightarrow> renderRating sp = RatingAbsent"
    by (simp add: renderRating_def)
  have href: "placeHref sp =
       ''https://www.google.com/maps/search/?api=1&query='' @ interpolate (name sp) @
       ''&query_place_id='' @ interpolate (place_id sp)"
    by (simp only: placeHref_def)
  show "\<exists>mv iw.
         render s = MainView (Some mv) (length (searchResults s)) (renderRows s) \<and>
         mv_infoWindow mv = Some iw \<and>
         overlayOf (render s) = Some iw \<and>
         iw_position iw = loc \<and>
         iw_name iw = name sp \<and>
         (\<forall>v. vicinity sp = Some v \<and> v \<noteq> [] \<longrightarrow> iw_address iw = Some v) \<and>
         (vicinity sp = None \<or> vicinity sp = Some [] \<longrightarrow>
            iw_address iw = formatted_address sp) \<and>
         (\<forall>r. rating sp = Some r \<and> r \<noteq> 0 \<longrightarrow>
            iw_rating iw = RatingLine r (user_ratings_total sp)) \<and>
         (rating sp = None \<longrightarrow> iw_rating iw = RatingAbsent) \<and>
         iw_href iw =
           ''https://www.google.com/maps/search/?api=1&query='' @ interpolate (name sp) @
           ''&query_place_id='' @ interpolate (place_id sp)"
  proof (intro exI conjI)
    show "render s = MainView (Some ?mv) (length (searchResults s)) (renderRows s)"
      by (rule view)
    show "mv_infoWindow ?mv = Some ?iw" by simp
    show "overlayOf (render s) = Some ?iw" by (simp add: view)
    show "iw_position ?iw = loc" by simp
    show "iw_name ?iw = name sp" by simp
    from address1 show "\<forall>v. vicinity sp = Some v \<and> v \<noteq> [] \<longrightarrow> iw_address ?iw = Some v"
      by simp
    from address2 show "vicinity sp = None \<or> vicinity sp = Some [] \<longrightarrow>
        iw_address ?iw = formatted_address sp"
      by simp
    from rating1 show "\<forall>r. rating sp = Some r \<and> r \<noteq> 0 \<longrightarrow>
        iw_rating ?iw = RatingLine r (user_ratings_total sp)"
      by simp
    from rating2 show "rating sp = None \<longrightarrow> iw_rating ?iw = RatingAbsent" by simp
    from href show "iw_href ?iw =
       ''https://www.google.com/maps/search/?api=1&query='' @ interpolate (name sp) @
       ''&query_place_id='' @ interpolate (place_id sp)"
      by simp
  qed
next
  assume hidden: "selectedPlace s = Some sp \<and> geometry_location sp = None"
  then have none: "renderInfoWindow s = None"
    by (simp add: renderInfoWindow_def)
  show "overlayOf (render s) = None"
  proof (cases "currentPosition s")
    case None
    then show ?thesis by (simp add: render_def)
  next
    case (Some pos')
    with none show ?thesis by (simp add: render_def)
  qed
qed

text \<open>
  The amended claim C8 at a selected place with geometry, vicinity and rating, and at a
  selected place without geometry.
\<close>

theorem overlay_of_selection_witness:
  "loadError cafeASelectedState = None \<and> isLoaded cafeASelectedState \<and>
   currentPosition cafeASelectedState = Some tokyoStation \<and>
   selectedPlace cafeASelectedState = Some cafeA \<and>
   geometry_location cafeA = Some \<lparr>lat = 35.6813, lng = 139.7672\<rparr> \<and>
   (\<exists>mv iw.
      render cafeASelectedState = MainView (Some mv) 1 (renderRows cafeASelectedState) \<and>
      mv_infoWindow mv = Some iw \<and>
      overlayOf (render cafeASelectedState) = Some iw \<and>
      iw_position iw = \<lparr>lat = 35.6813, lng = 139.7672\<rparr> \<and>
      iw_name iw = Some ''Cafe A'' \<and>
      iw_address iw = Some ''Marunouchi 1'' \<and>
      iw_rating iw = RatingLine 4.5 (Some 12) \<and>
      iw_href iw =
        ''https://www.google.com/maps/search/?api=1&query=Cafe A&query_place_id=p1'') \<and>
   selectedPlace kioskSelectedState = Some placeNoGeometry \<and>
   geometry_location placeNoGeometry = None \<and>
   overlayOf (render kioskSelectedState) = None"
proof -
  have h1: "loadError cafeASelectedState = None"
    and h2: "isLoaded cafeASelectedState"
    and h3: "currentPosition cafeASelectedState = Some tokyoStation"
    and h4: "selectedPlace cafeASelectedState = Some cafeA"
    and len: "length (searchResults cafeASelectedState) = 1"
    by (simp_all add: cafeASelectedState_def readyState_def initialState_def)
  note h5 = geometry_location_cafeA
  from overlay_of_selection
         [of cafeASelectedState tokyoStation cafeA "\<lparr>lat = 35.6813, lng = 139.7672\<rparr>"]
       h1 h2 h3 h4 h5
  obtain mv iw where
    view: "render cafeASelectedState =
       MainView (Some mv) (length (searchResults cafeASelectedState))
         (renderRows cafeASelectedState)"
    and window: "mv_infoWindow mv = Some iw"
    and overlay: "overlayOf (render cafeASelectedState) = Some iw"
    and position: "iw_position iw = \<lparr>lat = 35.6813, lng = 139.7672\<rparr>"
    and title: "iw_name iw = name cafeA"
    and address: "\<forall>v. vicinity cafeA = Some v \<and> v \<noteq> [] \<longrightarrow> iw_address iw = Some v"
    and stars: "\<forall>r. rating cafeA = Some r \<and> r \<noteq> 0 \<longrightarrow>
        iw_rating iw = RatingLine r (user_ratings_total cafeA)"
    and href: "iw_href iw =
       ''https://www.google.com/maps/search/?api=1&query='' @ interpolate (name cafeA) @
       ''&query_place_id='' @ interpolate (place_id cafeA)"
    by blast
  from title have title': "iw_name iw = Some ''Cafe A''" by (simp add: cafeA_def)
  from address have address': "iw_address iw = Some ''Marunouchi 1''" by (simp add: cafeA_def)
  from stars have stars': "iw_rating iw = RatingLine 4.5 (Some 12)" by (simp add: cafeA_def)
  from href have href':
    "iw_href iw = ''https://www.google.com/maps/search/?api=1&query=Cafe A&query_place_id=p1''"
    by (simp add: cafeA_def interpolate_def)
  from view len have view':
    "render cafeASelectedState = MainView (Some mv) 1 (renderRows cafeASelectedState)"
    by simp
  have k1: "selectedPlace kioskSelectedState = Some placeNoGeometry"
    by (simp add: kioskSelectedState_def)
  note k2 = geometry_location_placeNoGeometry
  from overlay_of_selection [of kioskSelectedState _ placeNoGeometry] k1 k2
  have hidden: "overlayOf (render kioskSelectedState) = None"
    by blast
  from h1 h2 h3 h4 h5 view' window overlay position title' address' stars' href' k1 k2 hidden
  show ?thesis by blast
qed

text \<open>
  Claim C9: closing the overlay sets the selection to none and changes nothing else:
  the result list, the current position and the query text stay as they are (as do the
  map handle and the search box reference), and the handler has no other effect.
\<close>

theorem overlay_close_frame:
  "onCloseClick s = (s\<lparr>selectedPlace := None\<rparr>, []) \<and>
   selectedPlace (fst (onCloseClick s)) = None \<and>
   searchResults (fst (onCloseClick s)) = searchResults s \<and>
   currentPosition (fst (onCloseClick s)) = currentPosition s \<and>
   searchQuery (fst (onCloseClick s)) = searchQuery s \<and>
   map_st (fst (onCloseClick s)) = map_st s \<and>
   searchBoxRef (fst (onCloseClick s)) = searchBoxRef s"
  by (simp add: onCloseClick_def)

text \<open>
  Claim C10: \<^verbatim>\<open>handleSearch\<close> and the callback of the nearby search, in every branch,
  leave the current position as it is; and an operation of the component after which
  the current position differs is the location acquisition or an autocomplete pick
  whose first candidate has a geometry location.
\<close>

theorem search_keeps_position:
  "currentPosition (fst (handleSearch s)) = currentPosition s \<and>
   currentPosition (fst (nearbySearchCallback m results status s)) = currentPosition s \<and>
   (currentPosition (fst (step ev s)) \<noteq> currentPosition s \<longrightarrow>
      (\<exists>g. ev = Geolocation g) \<or>
      (ev = PlacesChanged \<and>
       (\<exists>box p rest loc. searchBoxRef s = Some box \<and> getPlaces box = Some (p # rest) \<and>
          geometry_location p = Some loc)))"
proof -
  have search: "currentPosition (fst (handleSearch s)) = currentPosition s"
    by (simp add: handleSearch_state)
  have response:
    "currentPosition (fst (nearbySearchCallback m' results' status' s)) = currentPosition s"
    for m' results' status'
    by (simp add: nearbySearchCallback_state)
  have only: "(\<exists>g. ev = Geolocation g) \<or>
      (ev = PlacesChanged \<and>
       (\<exists>box p rest loc. searchBoxRef s = Some box \<and> getPlaces box = Some (p # rest) \<and>
          geometry_location p = Some loc))"
    if moved: "currentPosition (fst (step ev s)) \<noteq> currentPosition s"
  proof (cases ev)
    case (Geolocation g)
    then show ?thesis by blast
  next
    case HandleSearch
    with moved search show ?thesis by simp
  next
    case (NearbySearchResponse m' results' status')
    with moved response show ?thesis by simp
  next
    case PlacesChanged
    from onPlacesChanged_cases [of s] show ?thesis
    proof (elim disjE exE conjE)
      assume "fst (onPlacesChanged s) = s"
      with moved PlacesChanged show ?thesis by simp
    next
      fix box p rest loc
      assume "searchBoxRef s = Some box" and "getPlaces box = Some (p # rest)"
        and "geometry_location p = Some loc"
      with PlacesChanged show ?thesis by blast
    qed
  next
    case (MapLoad g m')
    with moved show ?thesis by (simp add: onLoad_def)
  next
    case MapUnmount
    with moved show ?thesis by (simp add: onUnmount_def)
  next
    case (SearchBoxLoad ref)
    with moved show ?thesis by (simp add: searchBoxOnLoad_def)
  next
    case (MarkerClick place)
    with moved show ?thesis by (simp add: markerOnClick_def)
  next
    case (RowClick place)
    with moved show ?thesis by (simp add: rowOnClick_def)
  next
    case CloseClick
    with moved show ?thesis by (simp add: onCloseClick_def)
  qed
  from search response [of m results status] only show ?thesis by blast
qed

text \<open>Claim C10 at an autocomplete pick that moves the current position.\<close>

theorem search_keeps_position_witness:
  "currentPosition (fst (step PlacesChanged pickState)) \<noteq> currentPosition pickState \<and>
   (\<exists>box p rest loc. searchBoxRef pickState = Some box \<and> getPlaces box = Some (p # rest) \<and>
      geometry_location p = Some loc) \<and>
   currentPosition (fst (handleSearch pickState)) = currentPosition pickState \<and>
   currentPosition (fst (nearbySearchCallback 1 (Some [cafeA]) PlacesServiceStatus_OK pickState))
     = currentPosition pickState"
proof -
  have box: "searchBoxRef pickState = Some \<lparr>getPlaces = Some [cafeB]\<rparr>"
    by (simp add: pickState_def)
  have before: "currentPosition pickState = Some tokyoStation"
    by (simp add: pickState_def readyState_def)
  from onPlacesChanged_pick [OF box _ geometry_location_cafeB, of "[]"]
  have after: "currentPosition (fst (step PlacesChanged pickState)) =
      Some \<lparr>lat = 35.68, lng = 139.77\<rparr>"
    by simp
  from before after have moved:
    "currentPosition (fst (step PlacesChanged pickState)) \<noteq> currentPosition pickState"
    by (simp add: tokyoStation_def)
  from search_keeps_position [of pickState 1 "Some [cafeA]" PlacesServiceStatus_OK PlacesChanged]
    moved
  show ?thesis by simp
qed

end
